theory Spec2Isabelle
  imports Complex_Main
begin

section \<open>Binary merger rates: \<^verbatim>\<open>skypy/gravitational_wave/merger_rate.py\<close>\<close>

text \<open>
  The module holds one function, \<^verbatim>\<open>abadie_tableIII_merger_rates\<close>. It builds a
  dictionary literal whose keys are the three population strings and whose values are
  dictionaries from optimism strings to numbers, subscripts that dictionary with
  \<^verbatim>\<open>[population, optimism]\<close>, multiplies the result with the luminosity array and
  divides by \<^verbatim>\<open>units.year\<close>.

  Python values are modelled as far as the function handles them: dictionary keys are
  strings or tuples of keys, dictionary values are numbers or dictionaries, numbers are
  reals, a raised exception is the left summand of the result.
\<close>

subsection \<open>Python values\<close>

datatype pykey = PStr string | PTuple "pykey list"

datatype pyval = PNum real | PDict "(pykey \<times> pyval) list"

datatype error = KeyError pykey | TypeError

text \<open>\<^verbatim>\<open>KeyError\<close> is a subclass of \<^verbatim>\<open>LookupError\<close>; \<^verbatim>\<open>TypeError\<close> is not.\<close>

fun is_LookupError :: "error \<Rightarrow> bool" where
  "is_LookupError (KeyError k) = True"
| "is_LookupError TypeError = False"

text \<open>
  \<^verbatim>\<open>d[k]\<close>: the value stored under a key equal to \<open>k\<close>, and \<^verbatim>\<open>KeyError(k)\<close> when
  there is none. A string and a tuple are never equal, which the distinct constructors
  of \<open>pykey\<close> express.
\<close>

definition getitem :: "(pykey \<times> pyval) list \<Rightarrow> pykey \<Rightarrow> error + pyval" where
  "getitem d k = (case map_of d k of None \<Rightarrow> Inl (KeyError k) | Some v \<Rightarrow> Inr v)"

text \<open>
  \<^verbatim>\<open>c * luminosity\<close> for an array of floats: a number scales every element; a
  dictionary operand is not a number and the product raises \<^verbatim>\<open>TypeError\<close>. The
  values of the outer dictionary are dictionaries, so this is the case a successful
  subscript of it would reach; \<open>merger_rates_raises\<close> below shows that none succeeds.
\<close>

fun py_mul :: "pyval \<Rightarrow> real list \<Rightarrow> error + real list" where
  "py_mul (PNum c) luminosity = Inr (map (\<lambda>x. c * x) luminosity)"
| "py_mul (PDict d) luminosity = Inl TypeError"

subsection \<open>Quantities\<close>

datatype astropy_unit = Year | UnitPow astropy_unit int

record quantity =
  qvalue :: "real list"
  qunit :: astropy_unit

text \<open>\<^verbatim>\<open>a / units.year\<close>: the array with the unit \<open>year\<^sup>-\<^sup>1\<close> attached.\<close>

definition div_year :: "real list \<Rightarrow> quantity" where
  "div_year a = \<lparr>qvalue = a, qunit = UnitPow Year (- 1)\<rparr>"

subsection \<open>The function\<close>

text \<open>The dictionary literal of lines 74 to 85, entry by entry.\<close>

definition abadie_tableIII_dict :: "(pykey \<times> pyval) list" where
  "abadie_tableIII_dict =
     [(PStr ''NS-NS'', PDict [(PStr ''low'', PNum 0.6),
                              (PStr ''realistic'', PNum 60),
                              (PStr ''high'', PNum 600),
                              (PStr ''max'', PNum 2000)]),
      (PStr ''NS-BH'', PDict [(PStr ''low'', PNum 0.03),
                              (PStr ''realistic'', PNum 2),
                              (PStr ''high'', PNum 60)]),
      (PStr ''BH-BH'', PDict [(PStr ''low'', PNum 0.006),
                              (PStr ''realistic'', PNum 0.2),
                              (PStr ''high'', PNum 20)])]"

text \<open>
  Lines 87 to 90. The subscript \<^verbatim>\<open>[population, optimism]\<close> is one subscript with the
  tuple \<^verbatim>\<open>(population, optimism)\<close> as its key.
\<close>

definition abadie_tableIII_merger_rates ::
    "real list \<Rightarrow> string \<Rightarrow> string \<Rightarrow> error + quantity" where
  "abadie_tableIII_merger_rates luminosity population optimism =
     (case getitem abadie_tableIII_dict (PTuple [PStr population, PStr optimism]) of
        Inl e \<Rightarrow> Inl e
      | Inr c \<Rightarrow>
          (case py_mul c luminosity of
             Inl e \<Rightarrow> Inl e
           | Inr merger_rate \<Rightarrow> Inr (div_year merger_rate)))"

text \<open>
  The signature of lines 17 to 19: \<^verbatim>\<open>population='NS-NS'\<close> and \<^verbatim>\<open>optimism='low'\<close>.
  An argument the caller leaves out is \<open>None\<close> and takes its default.
\<close>

definition abadie_tableIII_merger_rates_call ::
    "real list \<Rightarrow> string option \<Rightarrow> string option \<Rightarrow> error + quantity" where
  "abadie_tableIII_merger_rates_call luminosity population optimism =
     abadie_tableIII_merger_rates luminosity
       (case population of None \<Rightarrow> ''NS-NS'' | Some pop \<Rightarrow> pop)
       (case optimism of None \<Rightarrow> ''low'' | Some opt \<Rightarrow> opt)"

subsection \<open>The table as the specification reads it\<close>

text \<open>
  The specification reads the same literal as a table of coefficients indexed by
  population and then by optimism. \<open>spec_coefficient\<close> is that two-level reading; it is
  what the function's results are compared with, and no part of the function.
\<close>

definition spec_coefficient :: "string \<Rightarrow> string \<Rightarrow> real option" where
  "spec_coefficient population optimism =
     (case map_of abadie_tableIII_dict (PStr population) of
        Some (PDict inner) \<Rightarrow>
          (case map_of inner (PStr optimism) of
             Some (PNum c) \<Rightarrow> Some c
           | _ \<Rightarrow> None)
      | _ \<Rightarrow> None)"

section \<open>Properties\<close>

subsection \<open>The subscript\<close>

text \<open>Every key of the dictionary is a string, so no tuple is among them.\<close>

lemma map_of_dict_tuple: "map_of abadie_tableIII_dict (PTuple ks) = None"
  by (simp add: abadie_tableIII_dict_def)

lemma getitem_dict_tuple:
  "getitem abadie_tableIII_dict (PTuple ks) = Inl (KeyError (PTuple ks))"
  by (simp add: getitem_def map_of_dict_tuple)

lemma merger_rates_raises:
  "abadie_tableIII_merger_rates luminosity population optimism =
     Inl (KeyError (PTuple [PStr population, PStr optimism]))"
  by (simp add: abadie_tableIII_merger_rates_def getitem_dict_tuple)

text \<open>The two-level reading does find the entries of the table.\<close>

lemma spec_coefficient_values:
  "spec_coefficient ''NS-NS'' ''low'' = Some 0.6"
  "spec_coefficient ''NS-NS'' ''realistic'' = Some 60"
  "spec_coefficient ''NS-NS'' ''high'' = Some 600"
  "spec_coefficient ''NS-NS'' ''max'' = Some 2000"
  "spec_coefficient ''NS-BH'' ''low'' = Some 0.03"
  "spec_coefficient ''NS-BH'' ''realistic'' = Some 2"
  "spec_coefficient ''NS-BH'' ''high'' = Some 60"
  "spec_coefficient ''NS-BH'' ''max'' = None"
  "spec_coefficient ''BH-BH'' ''low'' = Some 0.006"
  "spec_coefficient ''BH-BH'' ''realistic'' = Some 0.2"
  "spec_coefficient ''BH-BH'' ''high'' = Some 20"
  "spec_coefficient ''BH-BH'' ''max'' = None"
  by (simp_all add: spec_coefficient_def abadie_tableIII_dict_def)

text \<open>
  The arithmetic after the subscript, on its own: a number scales the array element by
  element and the unit attached is \<open>year\<^sup>-\<^sup>1\<close>.
\<close>

lemma py_mul_num: "py_mul (PNum c) luminosity = Inr (map (\<lambda>x. c * x) luminosity)"
  by simp

lemma py_mul_num_iff: "py_mul (PNum c) luminosity = Inr r \<longleftrightarrow> r = map (\<lambda>x. c * x) luminosity"
  by auto

lemma div_year_unit: "qunit (div_year a) = UnitPow Year (- 1)"
  by (simp add: div_year_def)

subsection \<open>Claims\<close>

text \<open>
  C10. The function subscripts the outer dictionary, whose keys are the three population
  strings, with the tuple of population and optimism, where a two-level lookup
  \<^verbatim>\<open>dict[population][optimism]\<close> was needed. For all population and optimism strings
  and every luminosity array the call raises \<^verbatim>\<open>KeyError\<close> with that tuple, and
  returns no rate.
\<close>

theorem C10_always_KeyError:
  "abadie_tableIII_merger_rates luminosity population optimism =
     Inl (KeyError (PTuple [PStr population, PStr optimism]))"
  by (rule merger_rates_raises)

text \<open>
  C8. The optimism parameter defaults to \<^verbatim>\<open>'low'\<close>: for every luminosity array and
  every population argument (given or left out), the call without an optimism argument
  has the same outcome, value or exception, as the call with \<^verbatim>\<open>optimism='low'\<close>.
\<close>

theorem C8_optimism_default:
  "abadie_tableIII_merger_rates_call luminosity population None =
     abadie_tableIII_merger_rates_call luminosity population (Some ''low'')"
  by (simp add: abadie_tableIII_merger_rates_call_def)

text \<open>
  C9. The population parameter defaults to \<^verbatim>\<open>'NS-NS'\<close>: for every luminosity array
  and every optimism argument (given or left out), the call without a population argument
  has the same outcome, value or exception, as the call with \<^verbatim>\<open>population='NS-NS'\<close>.
\<close>

theorem C9_population_default:
  "abadie_tableIII_merger_rates_call luminosity None optimism =
     abadie_tableIII_merger_rates_call luminosity (Some ''NS-NS'') optimism"
  by (simp add: abadie_tableIII_merger_rates_call_def)

subsection \<open>Where the function departs from its documentation\<close>

text \<open>
  The docstring promises merger rates for the documented populations and optimism levels
  and calls the function with \<^verbatim>\<open>population='NS-NS', optimism='low'\<close> in its example.
  The theorems below evaluate the function at such arguments.
\<close>

text \<open>
  C1. For a pair of the table the result should have the length of the input and hold
  coefficient times luminosity at every index. At the luminosities \<open>[3, 4]\<close> with
  \<^verbatim>\<open>'NS-BH'\<close> and \<^verbatim>\<open>'realistic'\<close>, a pair the table gives the coefficient 2, the
  function raises \<^verbatim>\<open>KeyError\<close> where \<open>[6, 8]\<close> per year was due.
\<close>

theorem C1_linear_fails:
  "spec_coefficient ''NS-BH'' ''realistic'' = Some 2 \<and>
   abadie_tableIII_merger_rates [3, 4] ''NS-BH'' ''realistic'' =
     Inl (KeyError (PTuple [PStr ''NS-BH'', PStr ''realistic'']))"
  by (simp add: spec_coefficient_values merger_rates_raises)

text \<open>
  C2. The function should raise a \<^verbatim>\<open>LookupError\<close> exactly when the pair is no entry
  of the table. The pair \<^verbatim>\<open>'BH-BH'\<close>, \<^verbatim>\<open>'low'\<close> is an entry, with coefficient 0.006,
  and the call on the luminosities \<open>[1]\<close> raises a \<^verbatim>\<open>LookupError\<close> all the same; the
  pair with the population \<^verbatim>\<open>'XX-YY'\<close> is no entry and raises, as it should.
\<close>

theorem C2_valid_pair_raises:
  "spec_coefficient ''BH-BH'' ''low'' = Some 0.006 \<and>
   (case abadie_tableIII_merger_rates [1] ''BH-BH'' ''low'' of
      Inl e \<Rightarrow> is_LookupError e | Inr q \<Rightarrow> False) \<and>
   spec_coefficient ''XX-YY'' ''low'' = None \<and>
   (case abadie_tableIII_merger_rates [1] ''XX-YY'' ''low'' of
      Inl e \<Rightarrow> is_LookupError e | Inr q \<Rightarrow> False)"
  by (simp add: spec_coefficient_values merger_rates_raises
        spec_coefficient_def abadie_tableIII_dict_def)

text \<open>
  C3. With the luminosities \<open>[10]\<close> and the optimism \<^verbatim>\<open>'max'\<close>, the population
  \<^verbatim>\<open>'NS-NS'\<close> should give \<open>[20000]\<close> per year and \<^verbatim>\<open>'NS-BH'\<close> should raise. The
  function raises \<^verbatim>\<open>KeyError\<close> for both.
\<close>

theorem C3_max_raises:
  "abadie_tableIII_merger_rates [10] ''NS-NS'' ''max'' =
     Inl (KeyError (PTuple [PStr ''NS-NS'', PStr ''max''])) \<and>
   abadie_tableIII_merger_rates [10] ''NS-BH'' ''max'' =
     Inl (KeyError (PTuple [PStr ''NS-BH'', PStr ''max'']))"
  by (simp add: merger_rates_raises)

text \<open>
  C4. The worked examples: \<open>[1]\<close> with \<^verbatim>\<open>'NS-NS'\<close>, \<^verbatim>\<open>'low'\<close> should give \<open>[0.6]\<close>,
  \<open>[2, 0]\<close> with \<^verbatim>\<open>'BH-BH'\<close>, \<^verbatim>\<open>'high'\<close> should give \<open>[40, 0]\<close>, and \<open>[5]\<close> with
  \<^verbatim>\<open>'NS-NS'\<close>, \<^verbatim>\<open>'realistic'\<close> should give \<open>[300]\<close>, each per year. The function
  raises \<^verbatim>\<open>KeyError\<close> in all three.
\<close>

theorem C4_examples_raise:
  "abadie_tableIII_merger_rates [1] ''NS-NS'' ''low'' =
     Inl (KeyError (PTuple [PStr ''NS-NS'', PStr ''low''])) \<and>
   abadie_tableIII_merger_rates [2, 0] ''BH-BH'' ''high'' =
     Inl (KeyError (PTuple [PStr ''BH-BH'', PStr ''high''])) \<and>
   abadie_tableIII_merger_rates [5] ''NS-NS'' ''realistic'' =
     Inl (KeyError (PTuple [PStr ''NS-NS'', PStr ''realistic'']))"
  by (simp add: merger_rates_raises)

text \<open>
  C5. An empty luminosity array with a pair of the table should give an empty result and
  no exception. With \<^verbatim>\<open>'NS-NS'\<close> and \<^verbatim>\<open>'high'\<close> the function raises \<^verbatim>\<open>KeyError\<close>.
\<close>

theorem C5_empty_raises:
  "abadie_tableIII_merger_rates [] ''NS-NS'' ''high'' =
     Inl (KeyError (PTuple [PStr ''NS-NS'', PStr ''high'']))"
  by (simp add: merger_rates_raises)

text \<open>
  C6. Scaling the luminosities by \<open>k\<close> should scale the rates by \<open>k\<close>. With \<open>k = 3\<close>,
  the luminosities \<open>[1, 2]\<close>, \<^verbatim>\<open>'NS-BH'\<close> and \<^verbatim>\<open>'high'\<close>, neither the call on the
  scaled array nor the call on the array itself returns rates to compare: both raise
  \<^verbatim>\<open>KeyError\<close>.
\<close>

theorem C6_scaling_raises:
  "abadie_tableIII_merger_rates (map (\<lambda>x. 3 * x) [1, 2]) ''NS-BH'' ''high'' =
     Inl (KeyError (PTuple [PStr ''NS-BH'', PStr ''high''])) \<and>
   abadie_tableIII_merger_rates [1, 2] ''NS-BH'' ''high'' =
     Inl (KeyError (PTuple [PStr ''NS-BH'', PStr ''high'']))"
  by (simp add: merger_rates_raises)

text \<open>
  C7. For a pair of the table the result should carry the unit \<open>year\<^sup>-\<^sup>1\<close>. With the
  luminosities \<open>[7]\<close>, \<^verbatim>\<open>'BH-BH'\<close> and \<^verbatim>\<open>'realistic'\<close> the function returns no
  quantity at all: there is no \<open>q\<close> with the result \<open>Inr q\<close>, since it raises
  \<^verbatim>\<open>KeyError\<close>.
\<close>

theorem C7_no_quantity:
  "abadie_tableIII_merger_rates [7] ''BH-BH'' ''realistic'' =
     Inl (KeyError (PTuple [PStr ''BH-BH'', PStr ''realistic'']))"
  by (simp add: merger_rates_raises)

end
